theory Spec2Isabelle
  imports Main "HOL-Library.Word"
begin

section \<open>JavaScript objects used as dictionaries\<close>

text \<open>
  A plain JavaScript object is modelled by the list of its own properties, in insertion
  order and with distinct keys as long as it is only built with \<open>own_set\<close>.  Reading a
  property that the object does not own falls back to \<open>Object.prototype\<close>, whose members
  are truthy values that are not strings.
\<close>

type_synonym 'v js_object = "(string \<times> 'v) list"

datatype jsval = JString string | JInherited string

definition Object_prototype_names :: "string list" where
  "Object_prototype_names =
     [''constructor'', ''__defineGetter__'', ''__defineSetter__'', ''hasOwnProperty'',
      ''__lookupGetter__'', ''__lookupSetter__'', ''isPrototypeOf'',
      ''propertyIsEnumerable'', ''toString'', ''valueOf'', ''__proto__'',
      ''toLocaleString'']"

fun own_set :: "string \<Rightarrow> 'v \<Rightarrow> 'v js_object \<Rightarrow> 'v js_object" where
  "own_set k v [] = [(k, v)]"
| "own_set k v ((k', v') # kvs) =
     (if k = k' then (k, v) # kvs else (k', v') # own_set k v kvs)"

fun spread :: "'v js_object \<Rightarrow> 'v js_object \<Rightarrow> 'v js_object" where
  \<comment> \<open>\<open>{ ...target, ...source }\<close>\<close>
  "spread target [] = target"
| "spread target ((k, v) # kvs) = spread (own_set k v target) kvs"

definition fromEntries :: "(string \<times> 'v) list \<Rightarrow> 'v js_object" where
  "fromEntries kvs = spread [] kvs"

definition js_get :: "string js_object \<Rightarrow> string \<Rightarrow> jsval option" where
  \<comment> \<open>\<open>obj[k]\<close>; \<open>None\<close> is \<open>undefined\<close>\<close>
  "js_get obj k =
     (case map_of obj k of
        Some v \<Rightarrow> Some (JString v)
      | None \<Rightarrow> if k \<in> set Object_prototype_names then Some (JInherited k) else None)"

fun truthy :: "jsval option \<Rightarrow> bool" where
  "truthy None = False"
| "truthy (Some (JString s)) = (s \<noteq> [])"
| "truthy (Some (JInherited _)) = True"

definition truthy_string :: "string option \<Rightarrow> bool" where
  \<comment> \<open>a value that is \<open>null\<close> or a string\<close>
  "truthy_string v = (case v of None \<Rightarrow> False | Some s \<Rightarrow> s \<noteq> [])"


section \<open>credentials.js: session token and presigned-URL cache\<close>

record cred_state =
  proxyUrl :: "string option"
  provider :: "string option"
  sessionToken :: "string option"
  cache_urls :: "string js_object"
  cache_expiry :: int

definition initial_cred_state :: cred_state where
  "initial_cred_state =
     \<lparr>proxyUrl = None, provider = None, sessionToken = None, cache_urls = [], cache_expiry = 0\<rparr>"

definition REFRESH_BUFFER_MS :: int where
  "REFRESH_BUFFER_MS = 60 * 1000"

datatype cred_error =
    ProxyUrlRequired
  | ProviderRequired
  | TokenRequired
  | PathRequired
  | PathsRequired
  | NoValidPaths
  | ProxyNotConfigured
  | NotAuthenticated
  | AuthenticationFailed string
  | ProxyRequestFailed int string
  | ThrownError string
  | CommunicationFailed string

definition configureProxy :: "string \<Rightarrow> string \<Rightarrow> cred_state \<Rightarrow> cred_error + cred_state" where
  "configureProxy url prov s =
     (if url = [] then Inl ProxyUrlRequired
      else if prov = [] then Inl ProviderRequired
      else Inr (s\<lparr>proxyUrl := Some url, provider := Some prov\<rparr>))"

definition setSessionToken :: "string option \<Rightarrow> cred_state \<Rightarrow> cred_error + cred_state" where
  \<comment> \<open>\<open>None\<close> stands for an argument that is not a string\<close>
  "setSessionToken token s =
     (if \<not> truthy_string token then Inl TokenRequired
      else Inr (s\<lparr>sessionToken := token\<rparr>))"

definition clearCredentials :: "cred_state \<Rightarrow> cred_state" where
  "clearCredentials s = s\<lparr>sessionToken := None, cache_urls := [], cache_expiry := 0\<rparr>"

definition isCacheValid :: "int \<Rightarrow> cred_state \<Rightarrow> bool" where
  \<comment> \<open>the first argument is the value of \<open>Date.now()\<close>\<close>
  "isCacheValid now s = (cache_expiry s > now + REFRESH_BUFFER_MS)"

definition updateCache :: "int \<Rightarrow> string js_object \<Rightarrow> int \<Rightarrow> cred_state \<Rightarrow> cred_state" where
  "updateCache now urls expiresIn s =
     s\<lparr>cache_urls := spread (cache_urls s) urls, cache_expiry := now + expiresIn * 1000\<rparr>"

text \<open>
  The network is outside the program.  One call of \<open>fetch\<close> either rejects with a thrown
  value or resolves to a response; \<open>response.ok\<close> is determined by the status, the body
  text may fail to be read, and parsing the body as JSON may throw.
\<close>

datatype thrown = ErrorObject string | OtherValue string

record 'a http_response =
  status :: int
  body_text :: "string option"
  body_json :: "thrown + 'a"

datatype 'a fetch_outcome = Rejected thrown | Responded "'a http_response"

definition response_ok :: "'a http_response \<Rightarrow> bool" where
  "response_ok r = (200 \<le> status r \<and> status r \<le> 299)"

datatype request_body =
    PresignBody string string "string option"
  | PresignBatchBody "string list"

record request =
  req_url :: string
  req_bearer :: string
  req_provider :: "string option"
  req_body :: request_body

definition rethrow :: "thrown \<Rightarrow> cred_error" where
  \<comment> \<open>the \<open>catch\<close> block of \<open>proxyRequest\<close>\<close>
  "rethrow e = (case e of ErrorObject m \<Rightarrow> ThrownError m | OtherValue v \<Rightarrow> CommunicationFailed v)"

definition proxyRequest ::
  "string \<Rightarrow> request_body \<Rightarrow> 'a fetch_outcome \<Rightarrow> cred_state
     \<Rightarrow> (cred_error + 'a) \<times> cred_state \<times> request list" where
  "proxyRequest endpoint body outcome s =
     (if \<not> truthy_string (proxyUrl s) then (Inl ProxyNotConfigured, s, [])
      else if \<not> truthy_string (sessionToken s) then (Inl NotAuthenticated, s, [])
      else
        let req = \<lparr>req_url = the (proxyUrl s) @ endpoint, req_bearer = the (sessionToken s),
                   req_provider = provider s, req_body = body\<rparr>
        in case outcome of
             Rejected e \<Rightarrow> (Inl (rethrow e), s, [req])
           | Responded r \<Rightarrow>
               if \<not> response_ok r then
                 let errorText = (case body_text r of None \<Rightarrow> ''Unknown error'' | Some t \<Rightarrow> t)
                 in if status r = 401 \<or> status r = 403
                    then (Inl (AuthenticationFailed errorText), clearCredentials s, [req])
                    else (Inl (ProxyRequestFailed (status r) errorText), s, [req])
               else (case body_json r of
                       Inl e \<Rightarrow> (Inl (rethrow e), s, [req])
                     | Inr v \<Rightarrow> (Inr v, s, [req])))"

record presign_response =
  pr_url :: string
  pr_expiresIn :: int

record presign_batch_response =
  pb_urls :: "string js_object"
  pb_expiresIn :: int

definition getPresignedUrl ::
  "int \<Rightarrow> int \<Rightarrow> presign_response fetch_outcome \<Rightarrow> string \<Rightarrow> string \<Rightarrow> string \<Rightarrow> cred_state
     \<Rightarrow> (cred_error + jsval) \<times> cred_state \<times> request list" where
  \<comment> \<open>\<open>now\<close> is the clock when the cache is checked, \<open>now'\<close> the clock when the response
      has arrived and the cache is updated\<close>
  "getPresignedUrl now now' outcome path operation contentType s =
     (if path = [] then (Inl PathRequired, s, [])
      else if operation = ''GET'' \<and> isCacheValid now s \<and> truthy (js_get (cache_urls s) path)
      then (Inr (the (js_get (cache_urls s) path)), s, [])
      else
        case proxyRequest ''/presign''
               (PresignBody operation path (if operation = ''PUT'' then Some contentType else None))
               outcome s of
          (Inl e, s', reqs) \<Rightarrow> (Inl e, s', reqs)
        | (Inr response, s', reqs) \<Rightarrow>
            (Inr (JString (pr_url response)),
             if operation = ''GET''
             then updateCache now' [(path, pr_url response)] (pr_expiresIn response) s'
             else s',
             reqs))"

definition fetchPresignedUrls ::
  "int \<Rightarrow> int \<Rightarrow> presign_batch_response fetch_outcome \<Rightarrow> string option list \<Rightarrow> cred_state
     \<Rightarrow> (cred_error + jsval option js_object) \<times> cred_state \<times> request list" where
  \<comment> \<open>an element \<open>None\<close> of \<open>paths\<close> stands for an entry that is not a string\<close>
  "fetchPresignedUrls now now' outcome paths s =
     (if paths = [] then (Inl PathsRequired, s, [])
      else
        let validPaths = map the (filter truthy_string paths)
        in if validPaths = [] then (Inl NoValidPaths, s, [])
           else
             let pathsToFetch =
                   (if isCacheValid now s
                    then filter (\<lambda>p. \<not> truthy (js_get (cache_urls s) p)) validPaths
                    else validPaths)
             in if pathsToFetch = []
                then (Inr (fromEntries (map (\<lambda>p. (p, js_get (cache_urls s) p)) validPaths)), s, [])
                else
                  case proxyRequest ''/presign-batch'' (PresignBatchBody pathsToFetch) outcome s of
                    (Inl e, s', reqs) \<Rightarrow> (Inl e, s', reqs)
                  | (Inr response, s', reqs) \<Rightarrow>
                      let s'' = updateCache now' (pb_urls response) (pb_expiresIn response) s'
                      in (Inr (fromEntries (map (\<lambda>p. (p, js_get (cache_urls s'') p)) validPaths)),
                          s'', reqs))"

record cache_state =
  cs_size :: nat
  cs_expiry :: int
  cs_expiresIn :: int

definition getCacheState :: "int \<Rightarrow> cred_state \<Rightarrow> cache_state" where
  "getCacheState now s =
     \<lparr>cs_size = length (cache_urls s), cs_expiry = cache_expiry s,
      cs_expiresIn = max 0 ((cache_expiry s - now) div 1000)\<rparr>"


section \<open>init module: lifecycle of the embedded engine\<close>

text \<open>
  The engine instance, the connection and the worker are objects of the DuckDB library;
  only their identity matters here.  Whether one of their teardown methods throws is
  decided outside the program and is a parameter of \<open>closeDuckDB\<close>.
\<close>

datatype handle = Handle nat

record engine_state =
  db :: "handle option"
  conn :: "handle option"
  worker :: "handle option"
  isInitializing :: bool
  extensionsLoaded :: bool

definition initial_engine_state :: engine_state where
  "initial_engine_state =
     \<lparr>db = None, conn = None, worker = None, isInitializing = False, extensionsLoaded = False\<rparr>"

datatype teardown_step = ConnectionClose | DatabaseTerminate | WorkerTerminate

datatype event = Invoke teardown_step handle | DebugLog string

definition close_connection :: "(teardown_step \<Rightarrow> bool) \<Rightarrow> engine_state \<Rightarrow> engine_state \<times> event list" where
  "close_connection throws s =
     (case conn s of
        None \<Rightarrow> (s, [])
      | Some h \<Rightarrow>
          (s\<lparr>conn := None\<rparr>,
           [Invoke ConnectionClose h,
            DebugLog (if throws ConnectionClose then ''Error closing connection:''
                      else ''Connection closed'')]))"

definition terminate_database :: "(teardown_step \<Rightarrow> bool) \<Rightarrow> engine_state \<Rightarrow> engine_state \<times> event list" where
  "terminate_database throws s =
     (case db s of
        None \<Rightarrow> (s, [])
      | Some h \<Rightarrow>
          (s\<lparr>db := None\<rparr>,
           [Invoke DatabaseTerminate h,
            DebugLog (if throws DatabaseTerminate then ''Error terminating database:''
                      else ''Database terminated'')]))"

definition terminate_worker :: "(teardown_step \<Rightarrow> bool) \<Rightarrow> engine_state \<Rightarrow> engine_state \<times> event list" where
  "terminate_worker throws s =
     (case worker s of
        None \<Rightarrow> (s, [])
      | Some h \<Rightarrow>
          (s\<lparr>worker := None\<rparr>,
           [Invoke WorkerTerminate h,
            DebugLog (if throws WorkerTerminate then ''Error terminating worker:''
                      else ''Worker terminated'')]))"

definition closeDuckDB ::
  "(teardown_step \<Rightarrow> bool) \<Rightarrow> engine_state \<Rightarrow> (thrown + unit) \<times> engine_state \<times> event list" where
  \<comment> \<open>the first component is the outcome of the call: \<open>Inl\<close> would be a raised value\<close>
  "closeDuckDB throws s =
     (let (s1, ev1) = close_connection throws s;
          (s2, ev2) = terminate_database throws s1;
          (s3, ev3) = terminate_worker throws s2
      in (Inr (),
          s3\<lparr>extensionsLoaded := False\<rparr>,
          [DebugLog ''Closing DuckDB...''] @ ev1 @ ev2 @ ev3 @ [DebugLog ''DuckDB closed successfully'']))"

definition isDuckDBReady :: "engine_state \<Rightarrow> bool" where
  "isDuckDBReady s = (db s \<noteq> None \<and> \<not> isInitializing s)"

definition hasActiveConnection :: "engine_state \<Rightarrow> bool" where
  "hasActiveConnection s = (conn s \<noteq> None)"

definition invoked :: "event list \<Rightarrow> teardown_step list" where
  "invoked evs = concat (map (\<lambda>e. case e of Invoke st _ \<Rightarrow> [st] | DebugLog _ \<Rightarrow> []) evs)"


section \<open>repository.js: storage paths\<close>

record repository =
  service :: string
  label :: string
  storageType :: string
  storageProvider :: string
  bucket :: string
  dataPath :: string
  pathPrefix :: string
  credentialProxy :: string
  catalogType :: string
  catalogEndpoint :: string
  assetMode :: string
  owner :: string
  repo :: string
  branch :: string
  repoURL :: string
  treeBaseURL :: string
  blobBaseURL :: string
  isSelfHosted :: bool
  databaseName :: string

definition default_repository :: repository where
  "default_repository =
     \<lparr>service = [], label = [], storageType = [], storageProvider = [], bucket = [],
      dataPath = [], pathPrefix = [], credentialProxy = [], catalogType = [],
      catalogEndpoint = [], assetMode = ''inline'', owner = [], repo = [], branch = [],
      repoURL = [], treeBaseURL = [], blobBaseURL = [], isSelfHosted = False,
      databaseName = []\<rparr>"

fun join :: "string \<Rightarrow> string list \<Rightarrow> string" where
  "join sep [] = []"
| "join sep [x] = x"
| "join sep (x # y # ys) = x @ sep @ join sep (y # ys)"

fun collapse_slashes :: "string \<Rightarrow> string" where
  \<comment> \<open>\<open>.replace(/\/+/g, '/')\<close>\<close>
  "collapse_slashes (a # b # cs) =
     (if a = CHR ''/'' \<and> b = CHR ''/'' then collapse_slashes (b # cs)
      else a # collapse_slashes (b # cs))"
| "collapse_slashes cs = cs"

definition getFullStoragePath :: "repository \<Rightarrow> string \<Rightarrow> string" where
  "getFullStoragePath r relativePath =
     (let parts = filter (\<lambda>p. p \<noteq> []) [pathPrefix r, dataPath r, relativePath]
      in collapse_slashes (join ''/'' parts))"

definition getStorageURI :: "repository \<Rightarrow> string \<Rightarrow> string" where
  "getStorageURI r relativePath = ''s3://'' @ getFullStoragePath r relativePath"


section \<open>queries: statements sent to the engine\<close>

text \<open>
  The functions of \<open>queries/schema.js\<close> and \<open>queries/assets.js\<close> build a statement and
  hand it to \<open>conn.query\<close>.  A statement is represented by the values the source puts
  into it; the columns \<open>created_at\<close> and \<open>updated_at\<close> of an insert are always
  \<open>CURRENT_TIMESTAMP\<close>.  The content column of an insert is written in the text either
  as \<open>NULL\<close> or as the placeholder \<open>?::BLOB\<close>; the bytes are not part of the text, they
  are handed to \<open>conn.query\<close> in a list as its second argument, and that list is kept
  beside the statement.  A connection answers a statement with the rows of the result
  (one selected column) or throws; \<open>Inl\<close> carries the message of the thrown error.
\<close>

type_synonym bytes = "8 word list"

datatype timestamp_expr = CURRENT_TIMESTAMP

datatype content_expr = NullLiteral | BlobPlaceholder

record asset_row =
  col_id :: string
  col_path :: string
  col_filename :: string
  col_mime_type :: string
  col_size :: int
  col_kind :: string
  col_content :: content_expr
  col_sha :: string
  col_storage_mode :: string
  col_storage_url :: "string option"
  col_created_at :: timestamp_expr
  col_updated_at :: timestamp_expr

datatype set_clause =
    SetFilename string
  | SetPath string
  | SetSize int
  | SetContentParam
  | SetStorageMode string
  | SetStorageUrl string
  | SetStorageUrlNull
  | SetContentNull
  | SetUpdatedAtNow

datatype query =
    SelectSchemata
  | SelectTables
  | InsertAsset asset_row "bytes list"
  | UpdateAsset "set_clause list" string "bytes list"

type_synonym connection = "query \<Rightarrow> string + string list"

text \<open>
  The connection of the DuckDB library that the source names in its types,
  \<open>AsyncDuckDBConnection\<close>, has a \<open>query\<close> method that takes the statement text alone: a
  list passed after the text is not read, no value is bound to a placeholder, and a
  statement whose text holds a placeholder is rejected.  \<open>text_only_connection\<close> is such
  a connection on which every other statement succeeds with no rows.
\<close>

definition has_placeholder :: "query \<Rightarrow> bool" where
  "has_placeholder q =
     (case q of
        InsertAsset row params \<Rightarrow> col_content row = BlobPlaceholder
      | UpdateAsset clauses ident params \<Rightarrow> SetContentParam \<in> set clauses
      | _ \<Rightarrow> False)"

definition text_only_connection :: connection where
  "text_only_connection q =
     (if has_placeholder q
      then Inl ''Invalid Input Error: Expected 1 parameters, but none were supplied''
      else Inr [])"


section \<open>queries/schema.js: existence probe\<close>

definition schemaExists :: "connection \<Rightarrow> (string + bool) \<times> query list" where
  \<comment> \<open>the outcome of the call (\<open>Inl\<close> would be a raised error) and the statements issued\<close>
  "schemaExists c =
     (case c SelectSchemata of
        Inl _ \<Rightarrow> (Inr False, [SelectSchemata])
      | Inr schemaRows \<Rightarrow>
          if length schemaRows = 0 then (Inr False, [SelectSchemata])
          else (case c SelectTables of
                  Inl _ \<Rightarrow> (Inr False, [SelectSchemata, SelectTables])
                | Inr tableRows \<Rightarrow> (Inr (length tableRows = 2), [SelectSchemata, SelectTables])))"

text \<open>
  The information schema of the engine, for one database: the names of its schemas and
  the pairs of schema name and table name of its tables.  A table name is unique within
  its schema.  \<open>information_schema\<close> gives the rows that the two probes select.
\<close>

record catalog =
  schemata :: "string list"
  tables :: "(string \<times> string) list"

definition information_schema :: "catalog \<Rightarrow> query \<Rightarrow> string list" where
  "information_schema cat q =
     (case q of
        SelectSchemata \<Rightarrow> filter (\<lambda>n. n = ''cms'') (schemata cat)
      | SelectTables \<Rightarrow>
          map snd (filter (\<lambda>(sch, t). sch = ''cms'' \<and> (t = ''entries'' \<or> t = ''assets''))
                          (tables cat))
      | _ \<Rightarrow> [])"

definition answers_from :: "catalog \<Rightarrow> connection \<Rightarrow> bool" where
  \<comment> \<open>each probe either fails or returns what the catalog holds\<close>
  "answers_from cat c =
     (distinct (tables cat) \<and>
      (\<forall>q \<in> {SelectSchemata, SelectTables}.
         (case c q of Inl _ \<Rightarrow> True | Inr rows \<Rightarrow> rows = information_schema cat q)))"

definition succeeds :: "connection \<Rightarrow> query \<Rightarrow> bool" where
  "succeeds c q = (case c q of Inl _ \<Rightarrow> False | Inr _ \<Rightarrow> True)"


section \<open>queries/assets.js: insert and update\<close>

record asset =
  asset_sha :: string
  asset_path :: string
  asset_name :: string
  asset_size :: int
  asset_kind :: string
  asset_blobURL :: "string option"

datatype asset_error = InsertFailed string | UpdateFailed string

definition DEFAULT_INLINE_THRESHOLD :: int where
  "DEFAULT_INLINE_THRESHOLD = 5 * 1024 * 1024"

definition useInline :: "string \<Rightarrow> bytes option \<Rightarrow> int \<Rightarrow> bool" where
  "useInline mode content threshold =
     (mode = ''inline'' \<and> content \<noteq> None \<and> int (length (the content)) \<le> threshold)"

definition insert_statement ::
  "(string \<Rightarrow> string) \<Rightarrow> string \<Rightarrow> asset \<Rightarrow> bytes option \<Rightarrow> int \<Rightarrow> query" where
  \<comment> \<open>\<open>getMimeTypeFromPath\<close> rests on \<open>getPathInfo\<close> of an external package and is the
      parameter \<open>mime\<close>; \<open>mode\<close> is \<open>repository.assetMode\<close>\<close>
  "insert_statement mime mode a content threshold =
     (if useInline mode content threshold
      then InsertAsset
             \<lparr>col_id = asset_sha a, col_path = asset_path a, col_filename = asset_name a,
              col_mime_type = mime (asset_path a), col_size = int (length (the content)),
              col_kind = asset_kind a, col_content = BlobPlaceholder, col_sha = asset_sha a,
              col_storage_mode = ''inline'', col_storage_url = None,
              col_created_at = CURRENT_TIMESTAMP, col_updated_at = CURRENT_TIMESTAMP\<rparr>
             [the content]
      else
        let storageUrl = (if truthy_string (asset_blobURL a) then the (asset_blobURL a)
                          else asset_path a)
        in InsertAsset
             \<lparr>col_id = asset_sha a, col_path = asset_path a, col_filename = asset_name a,
              col_mime_type = mime (asset_path a), col_size = asset_size a,
              col_kind = asset_kind a, col_content = NullLiteral, col_sha = asset_sha a,
              col_storage_mode = ''external'', col_storage_url = Some storageUrl,
              col_created_at = CURRENT_TIMESTAMP, col_updated_at = CURRENT_TIMESTAMP\<rparr>
             [])"

definition insertAsset ::
  "(string \<Rightarrow> string) \<Rightarrow> string \<Rightarrow> connection \<Rightarrow> asset \<Rightarrow> bytes option \<Rightarrow> int
     \<Rightarrow> (asset_error + unit) \<times> query list" where
  "insertAsset mime mode c a content threshold =
     (let q = insert_statement mime mode a content threshold
      in case c q of
           Inl m \<Rightarrow> (Inl (InsertFailed m), [q])
         | Inr _ \<Rightarrow> (Inr (), [q]))"

record asset_updates =
  upd_name :: "string option"
  upd_path :: "string option"
  upd_size :: "int option"
  upd_blobURL :: "string option"

definition no_updates :: asset_updates where
  "no_updates = \<lparr>upd_name = None, upd_path = None, upd_size = None, upd_blobURL = None\<rparr>"

definition setClauses :: "asset_updates \<Rightarrow> bytes option \<Rightarrow> set_clause list" where
  \<comment> \<open>the list \<open>setClauses\<close> when the length test of \<open>updateAsset\<close> is reached\<close>
  "setClauses u content =
     (if truthy_string (upd_name u) then [SetFilename (the (upd_name u))] else []) @
     (if truthy_string (upd_path u) then [SetPath (the (upd_path u))] else []) @
     (case upd_size u of Some n \<Rightarrow> [SetSize n] | None \<Rightarrow> []) @
     (if content \<noteq> None
      then [SetContentParam, SetStorageMode ''inline'', SetStorageUrlNull]
      else if truthy_string (upd_blobURL u)
      then [SetStorageUrl (the (upd_blobURL u)), SetStorageMode ''external'', SetContentNull]
      else []) @
     [SetUpdatedAtNow]"

definition updateAsset ::
  "connection \<Rightarrow> string \<Rightarrow> asset_updates \<Rightarrow> bytes option
     \<Rightarrow> (asset_error + unit) \<times> query list" where
  "updateAsset c ident u content =
     (let clauses = setClauses u content;
          params = (case content of Some b \<Rightarrow> [b] | None \<Rightarrow> [])
      in if length clauses = 0 then (Inr (), [])
         else
           let q = UpdateAsset clauses ident params
           in case c q of
                Inl m \<Rightarrow> (Inl (UpdateFailed m), [q])
              | Inr _ \<Rightarrow> (Inr (), [q]))"


section \<open>commits.js: the commit identifier\<close>

datatype commit_error = RangeError | ShaFailed string

definition new_Uint8Array :: "nat \<Rightarrow> bytes" where
  "new_Uint8Array n = replicate n 0"

definition typed_array_set :: "bytes \<Rightarrow> bytes \<Rightarrow> nat \<Rightarrow> commit_error + bytes" where
  \<comment> \<open>\<open>target.set(source, offset)\<close>\<close>
  "typed_array_set target source offset =
     (if offset + length source > length target then Inl RangeError
      else Inr (take offset target @ source @ drop (offset + length source) target))"

definition hex_digit :: "nat \<Rightarrow> char" where
  "hex_digit d = ''0123456789abcdef'' ! d"

fun toString16 :: "nat \<Rightarrow> string" where
  "toString16 n = (if n < 16 then [hex_digit n] else toString16 (n div 16) @ [hex_digit (n mod 16)])"

definition padStart :: "nat \<Rightarrow> char \<Rightarrow> string \<Rightarrow> string" where
  "padStart n c s = replicate (n - length s) c @ s"

definition generateSha :: "(bytes \<Rightarrow> string + bytes) \<Rightarrow> bytes \<Rightarrow> commit_error + string" where
  \<comment> \<open>\<open>digest\<close> is \<open>crypto.subtle.digest('SHA-256', _)\<close>, which may reject with a message\<close>
  "generateSha digest content =
     (case digest content of
        Inl m \<Rightarrow> Inl (ShaFailed m)
      | Inr hashArray \<Rightarrow>
          let hashHex = concat (map (\<lambda>b. padStart 2 CHR ''0'' (toString16 (unat b))) hashArray)
          in Inr (take 40 hashHex))"

definition combinedContent :: "bytes \<Rightarrow> bytes \<Rightarrow> commit_error + bytes" where
  "combinedContent entriesParquet assetsParquet =
     (case typed_array_set
             (new_Uint8Array (length entriesParquet + length assetsParquet)) entriesParquet 0 of
        Inl e \<Rightarrow> Inl e
      | Inr buf \<Rightarrow> typed_array_set buf assetsParquet (length entriesParquet))"

definition commitChanges_sha ::
  "(bytes \<Rightarrow> string + bytes) \<Rightarrow> bytes \<Rightarrow> bytes \<Rightarrow> commit_error + string" where
  \<comment> \<open>the field \<open>sha\<close> of the result of \<open>commitChanges\<close>, from the two exported buffers\<close>
  "commitChanges_sha digest entriesParquet assetsParquet =
     (case combinedContent entriesParquet assetsParquet of
        Inl e \<Rightarrow> Inl e
      | Inr content \<Rightarrow> generateSha digest content)"


section \<open>Vocabulary of the properties\<close>

definition configured :: "cred_state \<Rightarrow> bool" where
  "configured s = truthy_string (proxyUrl s)"

definition authenticated :: "cred_state \<Rightarrow> bool" where
  "authenticated s = truthy_string (sessionToken s)"

definition cache_hit :: "int \<Rightarrow> cred_state \<Rightarrow> string \<Rightarrow> bool" where
  \<comment> \<open>the cache test of \<open>getPresignedUrl\<close> for a GET of \<open>path\<close> at clock \<open>now\<close>\<close>
  "cache_hit now s path = (isCacheValid now s \<and> truthy (js_get (cache_urls s) path))"

definition holds_url :: "cred_state \<Rightarrow> string \<Rightarrow> bool" where
  \<comment> \<open>the cache owns a non-empty URL for \<open>path\<close>\<close>
  "holds_url s path = (case map_of (cache_urls s) path of None \<Rightarrow> False | Some u \<Rightarrow> u \<noteq> [])"

definition served_from_cache :: "int \<Rightarrow> cred_state \<Rightarrow> string \<Rightarrow> bool" where
  \<comment> \<open>at clock \<open>now\<close>, before the cached expiry minus 60 s, with a URL cached for \<open>path\<close>\<close>
  "served_from_cache now s path = (now < cache_expiry s - 60 * 1000 \<and> holds_url s path)"

definition auth_rejected :: "'a fetch_outcome \<Rightarrow> bool" where
  "auth_rejected outcome =
     (case outcome of Rejected _ \<Rightarrow> False | Responded r \<Rightarrow> status r = 401 \<or> status r = 403)"

definition succeeded_with :: "'a fetch_outcome \<Rightarrow> 'a \<Rightarrow> bool" where
  "succeeded_with outcome v =
     (case outcome of Rejected _ \<Rightarrow> False | Responded r \<Rightarrow> response_ok r \<and> body_json r = Inr v)"

definition the_request :: "string \<Rightarrow> request_body \<Rightarrow> cred_state \<Rightarrow> request" where
  \<comment> \<open>the request that \<open>proxyRequest\<close> sends from a configured and authenticated state\<close>
  "the_request endpoint body s =
     \<lparr>req_url = the (proxyUrl s) @ endpoint, req_bearer = the (sessionToken s),
      req_provider = provider s, req_body = body\<rparr>"


section \<open>Sample inputs\<close>

definition accepting :: connection where
  \<comment> \<open>a connection on which every statement succeeds with no rows\<close>
  "accepting q = Inr []"

definition failing :: connection where
  \<comment> \<open>a connection on which every statement throws\<close>
  "failing q = Inl ''IO Error''"

definition catalog_connection :: "catalog \<Rightarrow> connection" where
  "catalog_connection cat q = Inr (information_schema cat q)"

definition initialized_catalog :: catalog where
  "initialized_catalog =
     \<lparr>schemata = [''main'', ''cms''],
      tables = [(''cms'', ''entries''), (''cms'', ''assets''), (''main'', ''scratch'')]\<rparr>"

definition image_png :: "string \<Rightarrow> string" where
  \<comment> \<open>\<open>getMimeTypeFromPath\<close> on paths with the extension \<open>png\<close>\<close>
  "image_png p = ''image/png''"

definition logo_asset :: asset where
  "logo_asset =
     \<lparr>asset_sha = ''3f2a'', asset_path = ''images/logo.png'', asset_name = ''logo.png'',
      asset_size = 3, asset_kind = ''image'', asset_blobURL = None\<rparr>"

definition signed_in :: cred_state where
  "signed_in =
     \<lparr>proxyUrl = Some ''https://cms-auth.workers.dev'', provider = Some ''s3'',
      sessionToken = Some ''test-token'', cache_urls = [], cache_expiry = 0\<rparr>"

definition warm_cache :: cred_state where
  \<comment> \<open>signed in, with a URL for \<open>file.txt\<close> cached until clock 901200\<close>
  "warm_cache =
     \<lparr>proxyUrl = Some ''https://cms-auth.workers.dev'', provider = Some ''s3'',
      sessionToken = Some ''test-token'',
      cache_urls = [(''file.txt'', ''https://bucket/file.txt?sig=abc'')], cache_expiry = 901200\<rparr>"

definition signed :: "string \<Rightarrow> int \<Rightarrow> presign_response fetch_outcome" where
  \<comment> \<open>the proxy answers 200 with a URL and a lifetime in seconds\<close>
  "signed u e =
     Responded \<lparr>status = 200, body_text = None, body_json = Inr \<lparr>pr_url = u, pr_expiresIn = e\<rparr>\<rparr>"

definition signed_batch :: "string js_object \<Rightarrow> int \<Rightarrow> presign_batch_response fetch_outcome" where
  "signed_batch us e =
     Responded \<lparr>status = 200, body_text = None, body_json = Inr \<lparr>pb_urls = us, pb_expiresIn = e\<rparr>\<rparr>"

definition unauthorized :: "'a http_response" where
  "unauthorized =
     \<lparr>status = 401, body_text = Some ''Unauthorized'',
      body_json = Inl (ErrorObject ''Unexpected token'')\<rparr>"

definition always_throws :: "teardown_step \<Rightarrow> bool" where
  "always_throws st = True"

definition running_engine :: engine_state where
  "running_engine =
     \<lparr>db = Some (Handle 1), conn = Some (Handle 2), worker = Some (Handle 3),
      isInitializing = False, extensionsLoaded = True\<rparr>"


section \<open>Storage paths\<close>

text \<open>
  C7, as the specification states it: with bucket \<open>my-bucket\<close>, data path \<open>cms/data\<close> and an
  empty prefix, \<open>getFullStoragePath('entries/blog.json')\<close> would be
  \<open>my-bucket/cms/data/entries/blog.json\<close>.  The function does not return that path.
\<close>

theorem getFullStoragePath_bucket_counterexample:
  "getFullStoragePath (default_repository\<lparr>bucket := ''my-bucket'', dataPath := ''cms/data''\<rparr>)
     ''entries/blog.json'' \<noteq> ''my-bucket/cms/data/entries/blog.json''"
  by (simp add: getFullStoragePath_def default_repository_def)

text \<open>
  C7, amended: with bucket \<open>my-bucket\<close>, data path \<open>cms/data\<close> and an empty prefix, the
  result is \<open>cms/data/entries/blog.json\<close>, whatever the other fields of the repository
  are: the path is made of the prefix, the data path and the relative path, the bucket is
  not part of it, and the empty prefix leaves no separator behind.
\<close>

theorem getFullStoragePath_without_bucket:
  "getFullStoragePath (r\<lparr>bucket := ''my-bucket'', pathPrefix := [], dataPath := ''cms/data''\<rparr>)
     ''entries/blog.json'' = ''cms/data/entries/blog.json'' \<and>
   getFullStoragePath (r\<lparr>bucket := b\<rparr>) relativePath = getFullStoragePath r relativePath"
proof
  show "getFullStoragePath (r\<lparr>bucket := ''my-bucket'', pathPrefix := [], dataPath := ''cms/data''\<rparr>)
     ''entries/blog.json'' = ''cms/data/entries/blog.json''"
    by (simp add: getFullStoragePath_def)
next
  have "pathPrefix (r\<lparr>bucket := b\<rparr>) = pathPrefix r" and "dataPath (r\<lparr>bucket := b\<rparr>) = dataPath r"
    by simp_all
  then show "getFullStoragePath (r\<lparr>bucket := b\<rparr>) relativePath = getFullStoragePath r relativePath"
    unfolding getFullStoragePath_def by (simp only:)
qed


section \<open>The commit identifier\<close>

lemma combinedContent_append: "combinedContent e a = Inr (e @ a)"
  by (simp add: combinedContent_def typed_array_set_def new_Uint8Array_def)

text \<open>
  C5: the commit identifier is computed from the entries buffer followed by the assets
  buffer: the two \<open>set\<close> calls never fail and fill the combined array with the
  concatenation, and the identifier is the first 40 hexadecimal digits of its digest.
  Equal pairs of buffers therefore give equal identifiers.
\<close>

theorem commit_sha_of_concatenation:
  "combinedContent entriesParquet assetsParquet = Inr (entriesParquet @ assetsParquet) \<and>
   commitChanges_sha digest entriesParquet assetsParquet =
     (case digest (entriesParquet @ assetsParquet) of
        Inl m \<Rightarrow> Inl (ShaFailed m)
      | Inr hashArray \<Rightarrow>
          Inr (take 40 (concat (map (\<lambda>b. padStart 2 CHR ''0'' (toString16 (unat b))) hashArray))))"
  by (simp add: commitChanges_sha_def combinedContent_append generateSha_def Let_def
      split: sum.splits)


section \<open>Assets\<close>

lemma insertAsset_issues:
  "snd (insertAsset mime mode c a content threshold) =
     [insert_statement mime mode a content threshold]"
  by (simp add: insertAsset_def Let_def split: sum.splits)

text \<open>
  C4 at the input \<open>insertAsset(conn, logo, new Uint8Array([1, 2]), 2)\<close> with asset mode
  \<open>inline\<close>, on a connection of the library: the inline branch is taken, the statement
  holds the placeholder \<open>?::BLOB\<close> for the content column and the two bytes travel in
  the list passed after the text.  The connection reads the text alone and rejects the
  statement, and \<open>insertAsset\<close> raises: no inline row is stored.
\<close>

theorem insertAsset_inline_content_not_bound:
  "insertAsset image_png ''inline'' text_only_connection logo_asset (Some [1, 2]) 2 =
     (Inl (InsertFailed ''Invalid Input Error: Expected 1 parameters, but none were supplied''),
      [InsertAsset
         \<lparr>col_id = ''3f2a'', col_path = ''images/logo.png'', col_filename = ''logo.png'',
          col_mime_type = ''image/png'', col_size = 2, col_kind = ''image'',
          col_content = BlobPlaceholder, col_sha = ''3f2a'', col_storage_mode = ''inline'',
          col_storage_url = None, col_created_at = CURRENT_TIMESTAMP,
          col_updated_at = CURRENT_TIMESTAMP\<rparr>
         [[1, 2]]])"
  by (simp add: insertAsset_def insert_statement_def useInline_def image_png_def
      logo_asset_def text_only_connection_def has_placeholder_def Let_def)

text \<open>
  C3, as the specification states it: with asset mode \<open>inline\<close>, content longer than the
  threshold would still be stored inline.  Three bytes against a threshold of two are
  recorded as an external row without content.
\<close>

theorem insertAsset_inline_over_threshold_counterexample:
  "snd (insertAsset image_png ''inline'' accepting logo_asset (Some [1, 2, 3]) 2) =
     [InsertAsset
       \<lparr>col_id = ''3f2a'', col_path = ''images/logo.png'', col_filename = ''logo.png'',
        col_mime_type = ''image/png'', col_size = 3, col_kind = ''image'',
        col_content = NullLiteral, col_sha = ''3f2a'', col_storage_mode = ''external'',
        col_storage_url = Some ''images/logo.png'', col_created_at = CURRENT_TIMESTAMP,
        col_updated_at = CURRENT_TIMESTAMP\<rparr>
       []]"
  by (simp add: insertAsset_issues insert_statement_def useInline_def image_png_def
      logo_asset_def truthy_string_def)

text \<open>
  C3, amended: when content longer than the threshold is supplied, the row is external
  in both asset modes: no inline bytes are stored (the content column is \<open>NULL\<close> and no
  bytes are passed with the statement) and a storage URL is recorded.  The mode
  \<open>inline\<close> does not override the threshold.
\<close>

theorem insertAsset_over_threshold_external:
  assumes "content = Some b" and "int (length b) > threshold"
    and "mode = ''inline'' \<or> mode = ''external''"
  shows "snd (insertAsset mime mode c a content threshold) =
     [InsertAsset
       \<lparr>col_id = asset_sha a, col_path = asset_path a, col_filename = asset_name a,
        col_mime_type = mime (asset_path a), col_size = asset_size a,
        col_kind = asset_kind a, col_content = NullLiteral, col_sha = asset_sha a,
        col_storage_mode = ''external'',
        col_storage_url = Some (if truthy_string (asset_blobURL a) then the (asset_blobURL a)
                                else asset_path a),
        col_created_at = CURRENT_TIMESTAMP, col_updated_at = CURRENT_TIMESTAMP\<rparr>
       []]"
proof -
  have "\<not> useInline mode content threshold"
    using assms(1,2) by (simp add: useInline_def)
  then show ?thesis
    by (simp add: insertAsset_issues insert_statement_def Let_def)
qed

theorem insertAsset_over_threshold_external_witness:
  "int (length [1, 2, 3 :: 8 word]) > 2 \<and>
   snd (insertAsset image_png ''external'' accepting
          (logo_asset\<lparr>asset_blobURL := Some ''assets/images/logo.png''\<rparr>) (Some [1, 2, 3]) 2) =
     [InsertAsset
       \<lparr>col_id = ''3f2a'', col_path = ''images/logo.png'', col_filename = ''logo.png'',
        col_mime_type = ''image/png'', col_size = 3, col_kind = ''image'',
        col_content = NullLiteral, col_sha = ''3f2a'', col_storage_mode = ''external'',
        col_storage_url = Some ''assets/images/logo.png'', col_created_at = CURRENT_TIMESTAMP,
        col_updated_at = CURRENT_TIMESTAMP\<rparr>
       []]"
  using insertAsset_over_threshold_external
    [of "Some [1, 2, 3]" "[1, 2, 3]" 2 "''external''" image_png accepting
        "logo_asset\<lparr>asset_blobURL := Some ''assets/images/logo.png''\<rparr>"]
  by (simp add: image_png_def logo_asset_def truthy_string_def)

lemma setClauses_last: "setClauses u content = butlast (setClauses u content) @ [SetUpdatedAtNow]"
  by (simp add: setClauses_def butlast_append)

text \<open>
  C6 at the input \<open>updateAsset(conn, 'abc', {}, undefined)\<close>: the clause for
  \<open>updated_at\<close> is appended before the list is tested for emptiness, so an update
  statement that sets \<open>updated_at\<close> is issued; for all inputs the list of clauses ends
  with that clause and one statement is issued.
\<close>

theorem updateAsset_without_changes_issues_update:
  "snd (updateAsset c ''abc'' no_updates None) = [UpdateAsset [SetUpdatedAtNow] ''abc'' []] \<and>
   snd (updateAsset c ident u content) =
     [UpdateAsset (butlast (setClauses u content) @ [SetUpdatedAtNow]) ident
        (case content of Some b \<Rightarrow> [b] | None \<Rightarrow> [])]"
proof -
  have ne: "setClauses u content \<noteq> []" for u content
    by (simp add: setClauses_def)
  have "snd (updateAsset c ident u content) =
      [UpdateAsset (setClauses u content) ident (case content of Some b \<Rightarrow> [b] | None \<Rightarrow> [])]"
      for ident u content
    using ne [of u content] by (simp add: updateAsset_def Let_def split: sum.splits)
  moreover have "setClauses no_updates None = [SetUpdatedAtNow]"
    by (simp add: setClauses_def no_updates_def truthy_string_def)
  ultimately show ?thesis
    using setClauses_last [of u content] by simp
qed


section \<open>The existence probe\<close>

lemma filter_two_names:
  "distinct xs \<Longrightarrow>
   length (filter (\<lambda>(sch, t). sch = ''cms'' \<and> (t = ''entries'' \<or> t = ''assets'')) xs) =
     (if (''cms'', ''entries'') \<in> set xs then 1 else 0) +
     (if (''cms'', ''assets'') \<in> set xs then 1 else 0)"
  by (induction xs) auto

lemma schemaExists_total: "\<exists>b. fst (schemaExists c) = Inr b"
  by (cases "c SelectSchemata"; cases "c SelectTables") (auto simp add: schemaExists_def)

lemma schemaExists_failure:
  "\<not> succeeds c SelectSchemata \<or> \<not> succeeds c SelectTables \<Longrightarrow> fst (schemaExists c) = Inr False"
  by (auto simp add: schemaExists_def succeeds_def split: sum.splits)

lemma schemaExists_true_iff:
  "fst (schemaExists c) = Inr True \<longleftrightarrow>
     (\<exists>schemaRows tableRows. c SelectSchemata = Inr schemaRows \<and> schemaRows \<noteq> [] \<and>
        c SelectTables = Inr tableRows \<and> length tableRows = 2)"
  by (auto simp add: schemaExists_def split: sum.splits)

text \<open>
  C8: \<open>schemaExists\<close> always returns a boolean and never raises; when one of the two
  information-schema queries fails the result is false; and on a connection that
  answers from a catalog, the result is true exactly when both queries succeed, the
  schema \<open>cms\<close> exists and the tables \<open>entries\<close> and \<open>assets\<close> are both present in it.
\<close>

theorem schemaExists_iff_schema_and_both_tables:
  "(\<exists>b. fst (schemaExists c) = Inr b) \<and>
   (\<not> succeeds c SelectSchemata \<or> \<not> succeeds c SelectTables \<longrightarrow>
      fst (schemaExists c) = Inr False) \<and>
   (answers_from cat c \<longrightarrow>
      (fst (schemaExists c) = Inr True \<longleftrightarrow>
         succeeds c SelectSchemata \<and> succeeds c SelectTables \<and>
         ''cms'' \<in> set (schemata cat) \<and>
         (''cms'', ''entries'') \<in> set (tables cat) \<and> (''cms'', ''assets'') \<in> set (tables cat)))"
proof (intro conjI impI)
  show "\<exists>b. fst (schemaExists c) = Inr b" by (rule schemaExists_total)
next
  assume "\<not> succeeds c SelectSchemata \<or> \<not> succeeds c SelectTables"
  then show "fst (schemaExists c) = Inr False" by (rule schemaExists_failure)
next
  assume a: "answers_from cat c"
  then have d: "distinct (tables cat)" by (simp add: answers_from_def)
  have s1: "c SelectSchemata = Inr rows \<Longrightarrow> rows = filter (\<lambda>n. n = ''cms'') (schemata cat)" for rows
    using a by (simp add: answers_from_def information_schema_def)
  have s2: "c SelectTables = Inr rows \<Longrightarrow> length rows =
     (if (''cms'', ''entries'') \<in> set (tables cat) then 1 else 0) +
     (if (''cms'', ''assets'') \<in> set (tables cat) then 1 else 0)" for rows
    using a filter_two_names [OF d] by (simp add: answers_from_def information_schema_def)
  show "fst (schemaExists c) = Inr True \<longleftrightarrow>
         succeeds c SelectSchemata \<and> succeeds c SelectTables \<and>
         ''cms'' \<in> set (schemata cat) \<and>
         (''cms'', ''entries'') \<in> set (tables cat) \<and> (''cms'', ''assets'') \<in> set (tables cat)"
  proof
    assume "fst (schemaExists c) = Inr True"
    then obtain schemaRows tableRows where r: "c SelectSchemata = Inr schemaRows" "schemaRows \<noteq> []"
        "c SelectTables = Inr tableRows" "length tableRows = 2"
      unfolding schemaExists_true_iff by blast
    from s1 [OF r(1)] r(2) have "''cms'' \<in> set (schemata cat)"
      by (auto simp add: filter_empty_conv)
    moreover from s2 [OF r(3)] r(4)
    have "(''cms'', ''entries'') \<in> set (tables cat) \<and> (''cms'', ''assets'') \<in> set (tables cat)"
      by (simp split: if_splits)
    ultimately show "succeeds c SelectSchemata \<and> succeeds c SelectTables \<and>
         ''cms'' \<in> set (schemata cat) \<and>
         (''cms'', ''entries'') \<in> set (tables cat) \<and> (''cms'', ''assets'') \<in> set (tables cat)"
      using r by (simp add: succeeds_def)
  next
    assume h: "succeeds c SelectSchemata \<and> succeeds c SelectTables \<and>
         ''cms'' \<in> set (schemata cat) \<and>
         (''cms'', ''entries'') \<in> set (tables cat) \<and> (''cms'', ''assets'') \<in> set (tables cat)"
    then obtain schemaRows tableRows where r: "c SelectSchemata = Inr schemaRows"
        "c SelectTables = Inr tableRows"
      by (auto simp add: succeeds_def split: sum.splits)
    from s1 [OF r(1)] h have "schemaRows \<noteq> []" by (auto simp add: filter_empty_conv)
    moreover from s2 [OF r(2)] h have "length tableRows = 2" by simp
    ultimately show "fst (schemaExists c) = Inr True"
      unfolding schemaExists_true_iff using r by blast
  qed
qed

theorem schemaExists_iff_schema_and_both_tables_witness:
  "answers_from initialized_catalog (catalog_connection initialized_catalog) \<and>
   fst (schemaExists (catalog_connection initialized_catalog)) = Inr True \<and>
   \<not> succeeds failing SelectSchemata \<and>
   fst (schemaExists failing) = Inr False"
  using schemaExists_iff_schema_and_both_tables
      [of "catalog_connection initialized_catalog" initialized_catalog]
    schemaExists_iff_schema_and_both_tables [of failing initialized_catalog]
  by (simp add: answers_from_def catalog_connection_def initialized_catalog_def
      information_schema_def succeeds_def failing_def)


section \<open>Closing the engine\<close>

lemma close_connection_state: "fst (close_connection throws s) = s\<lparr>conn := None\<rparr>"
  by (cases "conn s") (simp_all add: close_connection_def)

lemma terminate_database_state: "fst (terminate_database throws s) = s\<lparr>db := None\<rparr>"
  by (cases "db s") (simp_all add: terminate_database_def)

lemma terminate_worker_state: "fst (terminate_worker throws s) = s\<lparr>worker := None\<rparr>"
  by (cases "worker s") (simp_all add: terminate_worker_def)

lemma close_connection_invoked:
  "invoked (snd (close_connection throws s)) = (if conn s \<noteq> None then [ConnectionClose] else [])"
  by (cases "conn s") (simp_all add: close_connection_def invoked_def)

lemma terminate_database_invoked:
  "invoked (snd (terminate_database throws s)) = (if db s \<noteq> None then [DatabaseTerminate] else [])"
  by (cases "db s") (simp_all add: terminate_database_def invoked_def)

lemma terminate_worker_invoked:
  "invoked (snd (terminate_worker throws s)) = (if worker s \<noteq> None then [WorkerTerminate] else [])"
  by (cases "worker s") (simp_all add: terminate_worker_def invoked_def)

lemma invoked_append: "invoked (xs @ ys) = invoked xs @ invoked ys"
  by (simp add: invoked_def)

lemma invoked_DebugLog: "invoked (DebugLog m # xs) = invoked xs"
  by (simp add: invoked_def)

lemma invoked_Nil: "invoked [] = []"
  by (simp add: invoked_def)

lemma closeDuckDB_unfold:
  "closeDuckDB throws s =
     (Inr (),
      s\<lparr>conn := None, db := None, worker := None, extensionsLoaded := False\<rparr>,
      [DebugLog ''Closing DuckDB...''] @
        snd (close_connection throws s) @
        snd (terminate_database throws (s\<lparr>conn := None\<rparr>)) @
        snd (terminate_worker throws (s\<lparr>conn := None, db := None\<rparr>)) @
        [DebugLog ''DuckDB closed successfully''])"
proof -
  obtain s1 ev1 where a: "close_connection throws s = (s1, ev1)"
    by (cases "close_connection throws s")
  obtain s2 ev2 where b: "terminate_database throws s1 = (s2, ev2)"
    by (cases "terminate_database throws s1")
  obtain s3 ev3 where c: "terminate_worker throws s2 = (s3, ev3)"
    by (cases "terminate_worker throws s2")
  have s1: "s1 = s\<lparr>conn := None\<rparr>" using a close_connection_state [of throws s] by simp
  have s2: "s2 = s1\<lparr>db := None\<rparr>" using b terminate_database_state [of throws s1] by simp
  have s3: "s3 = s2\<lparr>worker := None\<rparr>" using c terminate_worker_state [of throws s2] by simp
  have "closeDuckDB throws s =
      (Inr (), s3\<lparr>extensionsLoaded := False\<rparr>,
       [DebugLog ''Closing DuckDB...''] @ ev1 @ ev2 @ ev3 @ [DebugLog ''DuckDB closed successfully''])"
    by (simp add: closeDuckDB_def a b c)
  moreover have "ev1 = snd (close_connection throws s)" using a by simp
  moreover have "ev2 = snd (terminate_database throws (s\<lparr>conn := None\<rparr>))" using b s1 by simp
  moreover have "ev3 = snd (terminate_worker throws (s\<lparr>conn := None, db := None\<rparr>))"
    using c s1 s2 by simp
  ultimately show ?thesis using s1 s2 s3 by simp
qed

text \<open>
  C9: \<open>closeDuckDB\<close> returns normally whatever the teardown methods do.  Afterwards the
  instance, the connection and the worker are unset and the extension flag is false, so
  \<open>isDuckDBReady\<close> and \<open>hasActiveConnection\<close> are false.  The teardown methods invoked are
  exactly those of the references that were set, in the order connection, engine, worker,
  whether or not an earlier one throws.  When no reference is set nothing is invoked and
  the state changes at most in the extension flag.
\<close>

theorem closeDuckDB_best_effort:
  "fst (closeDuckDB throws s) = Inr () \<and>
   (let s' = fst (snd (closeDuckDB throws s))
    in db s' = None \<and> conn s' = None \<and> worker s' = None \<and> \<not> extensionsLoaded s' \<and>
       isInitializing s' = isInitializing s \<and>
       \<not> isDuckDBReady s' \<and> \<not> hasActiveConnection s') \<and>
   invoked (snd (snd (closeDuckDB throws s))) =
     (if conn s \<noteq> None then [ConnectionClose] else []) @
     (if db s \<noteq> None then [DatabaseTerminate] else []) @
     (if worker s \<noteq> None then [WorkerTerminate] else []) \<and>
   (db s = None \<and> conn s = None \<and> worker s = None \<longrightarrow>
      invoked (snd (snd (closeDuckDB throws s))) = [] \<and>
      fst (snd (closeDuckDB throws s)) = s\<lparr>extensionsLoaded := False\<rparr>)"
proof -
  have inv: "invoked (snd (snd (closeDuckDB throws s))) =
     (if conn s \<noteq> None then [ConnectionClose] else []) @
     (if db s \<noteq> None then [DatabaseTerminate] else []) @
     (if worker s \<noteq> None then [WorkerTerminate] else [])"
    unfolding closeDuckDB_unfold
    by (simp only: snd_conv invoked_append invoked_DebugLog invoked_Nil
        close_connection_invoked terminate_database_invoked terminate_worker_invoked)
       simp
  have st: "fst (snd (closeDuckDB throws s)) =
      s\<lparr>conn := None, db := None, worker := None, extensionsLoaded := False\<rparr>"
    by (simp add: closeDuckDB_unfold)
  have noop: "db s = None \<and> conn s = None \<and> worker s = None \<longrightarrow>
      invoked (snd (snd (closeDuckDB throws s))) = [] \<and>
      fst (snd (closeDuckDB throws s)) = s\<lparr>extensionsLoaded := False\<rparr>"
    unfolding st inv by simp
  show ?thesis
    using inv noop by (simp add: st closeDuckDB_unfold isDuckDBReady_def hasActiveConnection_def)
qed

theorem closeDuckDB_best_effort_witness:
  "closeDuckDB always_throws initial_engine_state =
     (Inr (), initial_engine_state,
      [DebugLog ''Closing DuckDB...'', DebugLog ''DuckDB closed successfully'']) \<and>
   fst (closeDuckDB always_throws running_engine) = Inr () \<and>
   fst (snd (closeDuckDB always_throws running_engine)) = initial_engine_state \<and>
   invoked (snd (snd (closeDuckDB always_throws running_engine))) =
     [ConnectionClose, DatabaseTerminate, WorkerTerminate]"
proof -
  have e: "db initial_engine_state = None \<and> conn initial_engine_state = None \<and>
      worker initial_engine_state = None"
    by (simp add: initial_engine_state_def)
  have l: "snd (snd (closeDuckDB always_throws initial_engine_state)) =
      [DebugLog ''Closing DuckDB...'', DebugLog ''DuckDB closed successfully'']"
    by (simp add: closeDuckDB_unfold close_connection_def terminate_database_def
        terminate_worker_def initial_engine_state_def)
  show ?thesis
    using e l closeDuckDB_best_effort [of always_throws initial_engine_state]
      closeDuckDB_best_effort [of always_throws running_engine]
    by (simp add: prod_eq_iff initial_engine_state_def running_engine_def Let_def)
qed


section \<open>The presigned-URL cache\<close>

lemma map_of_own_set: "map_of (own_set k v kvs) = (map_of kvs)(k \<mapsto> v)"
  by (induction kvs) (auto simp add: fun_eq_iff)




lemma js_get_spread_single: "js_get (spread target [(k, v)]) k = Some (JString v)"
  by (simp add: js_get_def map_of_own_set)

lemma proxyRequest_success:
  "configured s \<Longrightarrow> authenticated s \<Longrightarrow> succeeded_with outcome v \<Longrightarrow>
   proxyRequest endpoint body outcome s = (Inr v, s, [the_request endpoint body s])"
  by (cases outcome)
     (simp_all add: proxyRequest_def configured_def authenticated_def succeeded_with_def
       the_request_def)

lemma proxyRequest_auth_rejected:
  "configured s \<Longrightarrow> authenticated s \<Longrightarrow> status r = 401 \<or> status r = 403 \<Longrightarrow>
   proxyRequest endpoint body (Responded r) s =
     (Inl (AuthenticationFailed (case body_text r of None \<Rightarrow> ''Unknown error'' | Some t \<Rightarrow> t)),
      clearCredentials s, [the_request endpoint body s])"
  by (auto simp add: proxyRequest_def configured_def authenticated_def Let_def
       response_ok_def the_request_def)

lemma proxyRequest_ready:
  "configured s \<Longrightarrow> authenticated s \<Longrightarrow>
   \<exists>res. proxyRequest endpoint body outcome s =
     (res, if auth_rejected outcome then clearCredentials s else s, [the_request endpoint body s])"
  by (cases outcome)
     (auto simp add: proxyRequest_def configured_def authenticated_def auth_rejected_def Let_def
       response_ok_def the_request_def split: sum.splits)

lemma proxyRequest_unready:
  "\<not> (configured s \<and> authenticated s) \<Longrightarrow>
   \<exists>e. proxyRequest endpoint body outcome s = (Inl e, s, [])"
  by (auto simp add: proxyRequest_def configured_def authenticated_def)

lemma getPresignedUrl_hit:
  "p \<noteq> [] \<Longrightarrow> cache_hit t s p \<Longrightarrow>
   getPresignedUrl t t' outcome p ''GET'' ct s = (Inr (the (js_get (cache_urls s) p)), s, [])"
  by (simp add: getPresignedUrl_def cache_hit_def)

lemma getPresignedUrl_miss:
  "p \<noteq> [] \<Longrightarrow> \<not> (operation = ''GET'' \<and> cache_hit t s p) \<Longrightarrow>
   getPresignedUrl t t' outcome p operation ct s =
     (case proxyRequest ''/presign''
               (PresignBody operation p (if operation = ''PUT'' then Some ct else None))
               outcome s of
          (Inl e, s', reqs) \<Rightarrow> (Inl e, s', reqs)
        | (Inr response, s', reqs) \<Rightarrow>
            (Inr (JString (pr_url response)),
             if operation = ''GET''
             then updateCache t' [(p, pr_url response)] (pr_expiresIn response) s'
             else s',
             reqs))"
  by (auto simp add: getPresignedUrl_def cache_hit_def)

lemma getPresignedUrl_get_fetch:
  assumes "configured s" "authenticated s" "p \<noteq> []" "\<not> cache_hit t s p"
    "succeeded_with outcome resp"
  shows "getPresignedUrl t t' outcome p ''GET'' ct s =
     (Inr (JString (pr_url resp)),
      updateCache t' [(p, pr_url resp)] (pr_expiresIn resp) s,
      [the_request ''/presign'' (PresignBody ''GET'' p None) s])"
  using assms
  by (simp add: getPresignedUrl_miss proxyRequest_success)

lemma getPresignedUrl_requests:
  "snd (snd (getPresignedUrl t t' outcome p operation ct s)) \<noteq> [] \<Longrightarrow>
   configured s \<and> authenticated s \<and> p \<noteq> [] \<and> \<not> (operation = ''GET'' \<and> cache_hit t s p)"
proof -
  assume a: "snd (snd (getPresignedUrl t t' outcome p operation ct s)) \<noteq> []"
  have p: "p \<noteq> []" using a by (auto simp add: getPresignedUrl_def)
  have m: "\<not> (operation = ''GET'' \<and> cache_hit t s p)"
    using a p by (auto simp add: getPresignedUrl_def cache_hit_def)
  have "configured s \<and> authenticated s"
  proof (rule ccontr)
    assume "\<not> (configured s \<and> authenticated s)"
    then obtain e where "proxyRequest ''/presign''
               (PresignBody operation p (if operation = ''PUT'' then Some ct else None))
               outcome s = (Inl e, s, [])"
      using proxyRequest_unready by blast
    then show False using a by (simp add: getPresignedUrl_miss [OF p m])
  qed
  then show ?thesis using p m by simp
qed

lemma fetchPresignedUrls_requests:
  assumes "snd (snd (fetchPresignedUrls t t' outcome paths s)) \<noteq> []"
  shows "configured s \<and> authenticated s \<and>
    (\<exists>body. fetchPresignedUrls t t' outcome paths s =
       (case proxyRequest ''/presign-batch'' body outcome s of
          (Inl e, s', reqs) \<Rightarrow> (Inl e, s', reqs)
        | (Inr response, s', reqs) \<Rightarrow>
            let s'' = updateCache t' (pb_urls response) (pb_expiresIn response) s'
            in (Inr (fromEntries (map (\<lambda>p. (p, js_get (cache_urls s'') p))
                                     (map the (filter truthy_string paths)))),
                s'', reqs)))"
proof -
  let ?valid = "map the (filter truthy_string paths)"
  let ?toFetch = "if isCacheValid t s
                    then filter (\<lambda>p. \<not> truthy (js_get (cache_urls s) p)) ?valid
                    else ?valid"
  have c1: "paths \<noteq> []" using assms by (auto simp add: fetchPresignedUrls_def)
  have c2: "?valid \<noteq> []" using assms c1 by (auto simp add: fetchPresignedUrls_def Let_def)
  have c3: "?toFetch \<noteq> []"
    using assms c1 c2 by (auto simp add: fetchPresignedUrls_def Let_def split: if_splits)
  have eq: "fetchPresignedUrls t t' outcome paths s =
       (case proxyRequest ''/presign-batch'' (PresignBatchBody ?toFetch) outcome s of
          (Inl e, s', reqs) \<Rightarrow> (Inl e, s', reqs)
        | (Inr response, s', reqs) \<Rightarrow>
            let s'' = updateCache t' (pb_urls response) (pb_expiresIn response) s'
            in (Inr (fromEntries (map (\<lambda>p. (p, js_get (cache_urls s'') p)) ?valid)),
                s'', reqs))"
    using c1 c2 c3 unfolding fetchPresignedUrls_def Let_def by simp
  have "configured s \<and> authenticated s"
  proof (rule ccontr)
    assume "\<not> (configured s \<and> authenticated s)"
    then obtain e where
      "proxyRequest ''/presign-batch'' (PresignBatchBody ?toFetch) outcome s = (Inl e, s, [])"
      using proxyRequest_unready by blast
    then show False using assms unfolding eq by simp
  qed
  then show ?thesis using eq by blast
qed

lemma clearCredentials_state:
  "sessionToken (clearCredentials s) = None \<and> cache_urls (clearCredentials s) = [] \<and>
   cache_expiry (clearCredentials s) = 0 \<and>
   cs_size (getCacheState later (clearCredentials s)) = 0 \<and>
   cs_expiry (getCacheState later (clearCredentials s)) = 0"
  by (simp add: clearCredentials_def getCacheState_def)

text \<open>
  C2: when a signing request has been sent, by \<open>getPresignedUrl\<close> or by
  \<open>fetchPresignedUrls\<close>, and the proxy answers with status 401 or 403, the call ends
  with the authentication error, and the state it leaves is the cleared one: the session
  token is null, the URL cache is empty and its expiry is 0, so that \<open>getCacheState\<close>
  reports size 0 afterwards.
\<close>

theorem auth_failure_clears_credentials:
  assumes "status r = 401 \<or> status r = 403" and "status rb = 401 \<or> status rb = 403"
  shows
   "(snd (snd (getPresignedUrl now now' (Responded r) path operation ct s)) \<noteq> [] \<longrightarrow>
       (let (res, s', reqs) = getPresignedUrl now now' (Responded r) path operation ct s
        in res = Inl (AuthenticationFailed
                        (case body_text r of None \<Rightarrow> ''Unknown error'' | Some t \<Rightarrow> t)) \<and>
           s' = clearCredentials s \<and>
           sessionToken s' = None \<and> cache_urls s' = [] \<and> cache_expiry s' = 0 \<and>
           cs_size (getCacheState later s') = 0)) \<and>
    (snd (snd (fetchPresignedUrls now now' (Responded rb) paths s)) \<noteq> [] \<longrightarrow>
       (let (res, s', reqs) = fetchPresignedUrls now now' (Responded rb) paths s
        in res = Inl (AuthenticationFailed
                        (case body_text rb of None \<Rightarrow> ''Unknown error'' | Some t \<Rightarrow> t)) \<and>
           s' = clearCredentials s \<and>
           sessionToken s' = None \<and> cache_urls s' = [] \<and> cache_expiry s' = 0 \<and>
           cs_size (getCacheState later s') = 0))"
proof (intro conjI impI)
  assume a: "snd (snd (getPresignedUrl now now' (Responded r) path operation ct s)) \<noteq> []"
  from getPresignedUrl_requests [OF a]
  have c: "configured s" "authenticated s" "path \<noteq> []"
      "\<not> (operation = ''GET'' \<and> cache_hit now s path)"
    by simp_all
  have "getPresignedUrl now now' (Responded r) path operation ct s =
      (Inl (AuthenticationFailed (case body_text r of None \<Rightarrow> ''Unknown error'' | Some t \<Rightarrow> t)),
       clearCredentials s,
       [the_request ''/presign''
          (PresignBody operation path (if operation = ''PUT'' then Some ct else None)) s])"
    by (simp only: getPresignedUrl_miss [OF c(3,4)]
        proxyRequest_auth_rejected [OF c(1,2) assms(1)]) simp
  then show "let (res, s', reqs) = getPresignedUrl now now' (Responded r) path operation ct s
        in res = Inl (AuthenticationFailed
                        (case body_text r of None \<Rightarrow> ''Unknown error'' | Some t \<Rightarrow> t)) \<and>
           s' = clearCredentials s \<and>
           sessionToken s' = None \<and> cache_urls s' = [] \<and> cache_expiry s' = 0 \<and>
           cs_size (getCacheState later s') = 0"
    using clearCredentials_state [of s later] by simp
next
  assume a: "snd (snd (fetchPresignedUrls now now' (Responded rb) paths s)) \<noteq> []"
  from fetchPresignedUrls_requests [OF a] obtain body where
    c: "configured s" "authenticated s" and
    eq: "fetchPresignedUrls now now' (Responded rb) paths s =
       (case proxyRequest ''/presign-batch'' body (Responded rb) s of
          (Inl e, s', reqs) \<Rightarrow> (Inl e, s', reqs)
        | (Inr response, s', reqs) \<Rightarrow>
            let s'' = updateCache now' (pb_urls response) (pb_expiresIn response) s'
            in (Inr (fromEntries (map (\<lambda>p. (p, js_get (cache_urls s'') p))
                                     (map the (filter truthy_string paths)))),
                s'', reqs))"
    by blast
  have "fetchPresignedUrls now now' (Responded rb) paths s =
      (Inl (AuthenticationFailed (case body_text rb of None \<Rightarrow> ''Unknown error'' | Some t \<Rightarrow> t)),
       clearCredentials s, [the_request ''/presign-batch'' body s])"
    by (simp only: eq proxyRequest_auth_rejected [OF c assms(2)]) simp
  then show "let (res, s', reqs) = fetchPresignedUrls now now' (Responded rb) paths s
        in res = Inl (AuthenticationFailed
                        (case body_text rb of None \<Rightarrow> ''Unknown error'' | Some t \<Rightarrow> t)) \<and>
           s' = clearCredentials s \<and>
           sessionToken s' = None \<and> cache_urls s' = [] \<and> cache_expiry s' = 0 \<and>
           cs_size (getCacheState later s') = 0"
    using clearCredentials_state [of s later] by simp
qed

theorem auth_failure_clears_credentials_witness:
  "status (unauthorized :: presign_response http_response) = 401 \<and>
   getPresignedUrl 5000 5200 (Responded unauthorized) ''file.txt'' ''GET''
      ''application/octet-stream''
      (signed_in\<lparr>cache_urls := [(''old.txt'', ''https://bucket/old.txt?sig=1'')],
                 cache_expiry := 900000\<rparr>) =
     (Inl (AuthenticationFailed ''Unauthorized''),
      signed_in\<lparr>sessionToken := None\<rparr>,
      [the_request ''/presign'' (PresignBody ''GET'' ''file.txt'' None) signed_in]) \<and>
   cs_size (getCacheState 6000 (signed_in\<lparr>sessionToken := None\<rparr>)) = 0 \<and>
   fetchPresignedUrls 5000 5200 (Responded unauthorized)
      [Some ''file.txt'', None, Some ''old.txt'']
      (signed_in\<lparr>cache_urls := [(''old.txt'', ''https://bucket/old.txt?sig=1'')],
                 cache_expiry := 900000\<rparr>) =
     (Inl (AuthenticationFailed ''Unauthorized''),
      signed_in\<lparr>sessionToken := None\<rparr>,
      [the_request ''/presign-batch'' (PresignBatchBody [''file.txt'']) signed_in])"
  using
    auth_failure_clears_credentials
      [where r = unauthorized and rb = unauthorized and now = 5000 and now' = 5200
         and path = "''file.txt''" and operation = "''GET''" and ct = "''application/octet-stream''"
         and paths = "[Some ''file.txt'', None, Some ''old.txt'']" and later = 6000
         and s = "signed_in\<lparr>cache_urls := [(''old.txt'', ''https://bucket/old.txt?sig=1'')],
                 cache_expiry := 900000\<rparr>"]
  by (simp add: signed_in_def unauthorized_def truthy_string_def isCacheValid_def
      REFRESH_BUFFER_MS_def js_get_def Object_prototype_names_def response_ok_def
      the_request_def getPresignedUrl_def fetchPresignedUrls_def proxyRequest_def
      clearCredentials_def getCacheState_def)

lemma updateCache_keeps_credentials:
  "configured (updateCache now urls e s) = configured s \<and>
   authenticated (updateCache now urls e s) = authenticated s"
  by (simp add: updateCache_def configured_def authenticated_def)

lemma cache_hit_after_update:
  assumes "u \<noteq> []" and "t < now + e * 1000 - REFRESH_BUFFER_MS"
  shows "cache_hit t (updateCache now [(p, u)] e s) p \<and>
    js_get (cache_urls (updateCache now [(p, u)] e s)) p = Some (JString u)"
  using assms
  by (simp add: cache_hit_def isCacheValid_def updateCache_def js_get_def map_of_own_set)

lemma cache_hit_served:
  "p \<notin> set Object_prototype_names \<Longrightarrow> cache_hit t s p = served_from_cache t s p"
  by (auto simp add: cache_hit_def served_from_cache_def holds_url_def isCacheValid_def
      js_get_def REFRESH_BUFFER_MS_def split: option.splits)

lemma served_value:
  "served_from_cache t s p \<Longrightarrow>
   the (js_get (cache_urls s) p) = JString (the (map_of (cache_urls s) p))"
  by (simp add: served_from_cache_def holds_url_def js_get_def split: option.splits)

lemma getPresignedUrl_sends:
  assumes "configured s" and "authenticated s" and "p \<noteq> []"
    and "\<not> (operation = ''GET'' \<and> cache_hit t s p)"
  shows "\<exists>res s'. getPresignedUrl t t' outcome p operation ct s =
     (res, s',
      [the_request ''/presign''
         (PresignBody operation p (if operation = ''PUT'' then Some ct else None)) s]) \<and>
     (operation \<noteq> ''GET'' \<longrightarrow> s' = (if auth_rejected outcome then clearCredentials s else s))"
proof -
  let ?body = "PresignBody operation p (if operation = ''PUT'' then Some ct else None)"
  obtain r where pr: "proxyRequest ''/presign'' ?body outcome s =
      (r, if auth_rejected outcome then clearCredentials s else s, [the_request ''/presign'' ?body s])"
    using proxyRequest_ready [OF assms(1,2), of "''/presign''" ?body outcome] by auto
  show ?thesis
    by (cases r) (simp_all add: getPresignedUrl_miss [OF assms(3,4)] pr)
qed

lemma getPresignedUrl_signed_out:
  assumes "\<not> authenticated s" and "p \<noteq> []" and "\<not> (operation = ''GET'' \<and> cache_hit t s p)"
  shows "\<exists>e. getPresignedUrl t t' outcome p operation ct s = (Inl e, s, [])"
proof -
  let ?body = "PresignBody operation p (if operation = ''PUT'' then Some ct else None)"
  obtain e where "proxyRequest ''/presign'' ?body outcome s = (Inl e, s, [])"
    using proxyRequest_unready [of s "''/presign''" ?body outcome] assms(1) by auto
  then show ?thesis
    by (simp add: getPresignedUrl_miss [OF assms(2,3)])
qed

lemma clearCredentials_signed_out: "\<not> authenticated (clearCredentials s)"
  by (simp add: clearCredentials_def authenticated_def truthy_string_def)

text \<open>
  C1, as the specification states it: from every configured and authenticated state, two
  GET calls for one path send exactly one signing request and two PUT calls send two.
  With a URL for \<open>file.txt\<close> already cached and valid, two GET calls send none; when
  the proxy answers the first PUT with 401, the token is cleared and the second PUT fails
  before it sends, so one request is sent; and when the proxy answers a GET with an empty
  URL, the second GET asks again, so two are sent.
\<close>

theorem getPresignedUrl_twice_counterexample:
  "configured warm_cache \<and> authenticated warm_cache \<and>
   getPresignedUrl 1000 1200 (signed ''https://bucket/file.txt?sig=def'' 900) ''file.txt''
      ''GET'' ''application/octet-stream'' warm_cache =
     (Inr (JString ''https://bucket/file.txt?sig=abc''), warm_cache, []) \<and>
   getPresignedUrl 2000 2200 (signed ''https://bucket/file.txt?sig=def'' 900) ''file.txt''
      ''GET'' ''application/octet-stream'' warm_cache =
     (Inr (JString ''https://bucket/file.txt?sig=abc''), warm_cache, []) \<and>
   configured signed_in \<and> authenticated signed_in \<and>
   getPresignedUrl 1000 1200 (Responded unauthorized) ''file.txt''
      ''PUT'' ''application/octet-stream'' signed_in =
     (Inl (AuthenticationFailed ''Unauthorized''), signed_in\<lparr>sessionToken := None\<rparr>,
      [the_request ''/presign''
         (PresignBody ''PUT'' ''file.txt'' (Some ''application/octet-stream'')) signed_in]) \<and>
   getPresignedUrl 2000 2200 (signed ''https://bucket/file.txt?sig=def'' 900) ''file.txt''
      ''PUT'' ''application/octet-stream'' (signed_in\<lparr>sessionToken := None\<rparr>) =
     (Inl NotAuthenticated, signed_in\<lparr>sessionToken := None\<rparr>, []) \<and>
   getPresignedUrl 1000 1200 (signed [] 900) ''file.txt''
      ''GET'' ''application/octet-stream'' signed_in =
     (Inr (JString []),
      signed_in\<lparr>cache_urls := [(''file.txt'', [])], cache_expiry := 901200\<rparr>,
      [the_request ''/presign'' (PresignBody ''GET'' ''file.txt'' None) signed_in]) \<and>
   getPresignedUrl 2000 2200 (signed ''https://bucket/file.txt?sig=def'' 900) ''file.txt''
      ''GET'' ''application/octet-stream''
      (signed_in\<lparr>cache_urls := [(''file.txt'', [])], cache_expiry := 901200\<rparr>) =
     (Inr (JString ''https://bucket/file.txt?sig=def''),
      signed_in\<lparr>cache_urls := [(''file.txt'', ''https://bucket/file.txt?sig=def'')],
                cache_expiry := 902200\<rparr>,
      [the_request ''/presign'' (PresignBody ''GET'' ''file.txt'' None) signed_in])"
  by (simp add: warm_cache_def signed_in_def signed_def unauthorized_def configured_def
      authenticated_def truthy_string_def isCacheValid_def REFRESH_BUFFER_MS_def js_get_def
      Object_prototype_names_def response_ok_def updateCache_def the_request_def
      getPresignedUrl_def proxyRequest_def clearCredentials_def)

text \<open>
  C1, amended: in a configured and authenticated state, for a non-empty path that is not
  the name of a member of \<open>Object.prototype\<close>, a GET is served from the cache without a
  signing request when the cache holds a non-empty URL for the path and the clock is
  before the cached expiry minus 60 s, and sends exactly one request otherwise.  So two
  GET calls for one path send exactly one request when the first is not served from the
  cache, the proxy answers it with a non-empty URL and the second is made before the new
  expiry minus 60 s (the second returns the cached URL); they send none when both are
  served from the cache, and two when the answer is an empty URL.  A PUT sends exactly
  one request, so two PUT calls send two, unless the first is answered 401 or 403: then
  the second sends none.  A call with an operation other than GET adds nothing to the
  URL cache: it leaves the state as it is, or cleared after a 401 or 403.
\<close>

theorem getPresignedUrl_get_cached_put_fresh:
  assumes "configured s" and "authenticated s" and "p \<noteq> []"
    and "p \<notin> set Object_prototype_names"
  shows
   "(served_from_cache t1 s p \<longrightarrow>
       getPresignedUrl t1 t1' o1 p ''GET'' ct s =
         (Inr (JString (the (map_of (cache_urls s) p))), s, [])) \<and>
    (\<not> served_from_cache t1 s p \<longrightarrow>
       length (snd (snd (getPresignedUrl t1 t1' o1 p ''GET'' ct s))) = 1) \<and>
    (\<not> served_from_cache t1 s p \<and> succeeded_with o1 resp \<and> pr_url resp \<noteq> [] \<and>
     t2 < t1' + pr_expiresIn resp * 1000 - 60 * 1000 \<longrightarrow>
       (let (res1, s1, reqs1) = getPresignedUrl t1 t1' o1 p ''GET'' ct s;
            (res2, s2, reqs2) = getPresignedUrl t2 t2' o2 p ''GET'' ct s1
        in res1 = Inr (JString (pr_url resp)) \<and> res2 = Inr (JString (pr_url resp)) \<and>
           length reqs1 = 1 \<and> reqs2 = [] \<and> length (reqs1 @ reqs2) = 1 \<and> s2 = s1)) \<and>
    (served_from_cache t1 s p \<and> served_from_cache t2 s p \<longrightarrow>
       (let (res1, s1, reqs1) = getPresignedUrl t1 t1' o1 p ''GET'' ct s;
            (res2, s2, reqs2) = getPresignedUrl t2 t2' o2 p ''GET'' ct s1
        in reqs1 @ reqs2 = [] \<and> res2 = res1 \<and> s2 = s)) \<and>
    (\<not> served_from_cache t1 s p \<and> succeeded_with o1 resp \<and> pr_url resp = [] \<longrightarrow>
       (let (res1, s1, reqs1) = getPresignedUrl t1 t1' o1 p ''GET'' ct s;
            (res2, s2, reqs2) = getPresignedUrl t2 t2' o2 p ''GET'' ct s1
        in length (reqs1 @ reqs2) = 2)) \<and>
    (let (res1, s1, reqs1) = getPresignedUrl t1 t1' q1 p ''PUT'' ct s;
         (res2, s2, reqs2) = getPresignedUrl t2 t2' q2 p ''PUT'' ct s1
     in length reqs1 = 1 \<and> length reqs2 = (if auth_rejected q1 then 0 else 1) \<and>
        s1 = (if auth_rejected q1 then clearCredentials s else s)) \<and>
    (operation \<noteq> ''GET'' \<longrightarrow>
       (let (res, s', reqs) = getPresignedUrl t1 t1' q1 p operation ct s
        in s' = (if auth_rejected q1 then clearCredentials s else s) \<and>
           set (cache_urls s') \<subseteq> set (cache_urls s)))"
proof (intro conjI impI)
  assume h: "served_from_cache t1 s p"
  then have "cache_hit t1 s p" using assms(4) by (simp add: cache_hit_served)
  then show "getPresignedUrl t1 t1' o1 p ''GET'' ct s =
         (Inr (JString (the (map_of (cache_urls s) p))), s, [])"
    using getPresignedUrl_hit [OF assms(3), of t1 s t1' o1 ct] served_value [OF h] by simp
next
  assume "\<not> served_from_cache t1 s p"
  then have m: "\<not> (''GET'' = ''GET'' \<and> cache_hit t1 s p)"
    using assms(4) by (simp add: cache_hit_served)
  from getPresignedUrl_sends [OF assms(1,2,3) m, where t' = t1' and outcome = o1 and ct = ct]
  show "length (snd (snd (getPresignedUrl t1 t1' o1 p ''GET'' ct s))) = 1" by auto
next
  assume h: "\<not> served_from_cache t1 s p \<and> succeeded_with o1 resp \<and> pr_url resp \<noteq> [] \<and>
     t2 < t1' + pr_expiresIn resp * 1000 - 60 * 1000"
  let ?s1 = "updateCache t1' [(p, pr_url resp)] (pr_expiresIn resp) s"
  have m: "\<not> cache_hit t1 s p" using h assms(4) by (simp add: cache_hit_served)
  have first: "getPresignedUrl t1 t1' o1 p ''GET'' ct s =
      (Inr (JString (pr_url resp)), ?s1, [the_request ''/presign'' (PresignBody ''GET'' p None) s])"
    using assms m h by (simp add: getPresignedUrl_get_fetch)
  have hit: "cache_hit t2 ?s1 p" "js_get (cache_urls ?s1) p = Some (JString (pr_url resp))"
    using cache_hit_after_update [of "pr_url resp" t2 t1' "pr_expiresIn resp" p s] h
    by (simp_all add: REFRESH_BUFFER_MS_def)
  have second: "getPresignedUrl t2 t2' o2 p ''GET'' ct ?s1 = (Inr (JString (pr_url resp)), ?s1, [])"
    using getPresignedUrl_hit [OF assms(3) hit(1), of t2' o2 ct] hit(2) by simp
  show "let (res1, s1, reqs1) = getPresignedUrl t1 t1' o1 p ''GET'' ct s;
            (res2, s2, reqs2) = getPresignedUrl t2 t2' o2 p ''GET'' ct s1
        in res1 = Inr (JString (pr_url resp)) \<and> res2 = Inr (JString (pr_url resp)) \<and>
           length reqs1 = 1 \<and> reqs2 = [] \<and> length (reqs1 @ reqs2) = 1 \<and> s2 = s1"
    by (simp add: first second)
next
  assume h: "served_from_cache t1 s p \<and> served_from_cache t2 s p"
  then have c: "cache_hit t1 s p" "cache_hit t2 s p"
    using assms(4) by (simp_all add: cache_hit_served)
  show "let (res1, s1, reqs1) = getPresignedUrl t1 t1' o1 p ''GET'' ct s;
            (res2, s2, reqs2) = getPresignedUrl t2 t2' o2 p ''GET'' ct s1
        in reqs1 @ reqs2 = [] \<and> res2 = res1 \<and> s2 = s"
    by (simp add: getPresignedUrl_hit [OF assms(3) c(1)] getPresignedUrl_hit [OF assms(3) c(2)])
next
  assume h: "\<not> served_from_cache t1 s p \<and> succeeded_with o1 resp \<and> pr_url resp = []"
  let ?s1 = "updateCache t1' [(p, pr_url resp)] (pr_expiresIn resp) s"
  have m: "\<not> cache_hit t1 s p" using h assms(4) by (simp add: cache_hit_served)
  have sw: "succeeded_with o1 resp" using h by simp
  have first: "getPresignedUrl t1 t1' o1 p ''GET'' ct s =
      (Inr (JString (pr_url resp)), ?s1, [the_request ''/presign'' (PresignBody ''GET'' p None) s])"
    by (rule getPresignedUrl_get_fetch [OF assms(1,2,3) m sw])
  have "js_get (cache_urls ?s1) p = Some (JString [])"
    using h by (simp add: updateCache_def js_get_def map_of_own_set)
  then have m2: "\<not> (''GET'' = ''GET'' \<and> cache_hit t2 ?s1 p)"
    by (simp add: cache_hit_def)
  have c: "configured ?s1" "authenticated ?s1"
    using assms(1,2) by (simp_all add: updateCache_keeps_credentials)
  from getPresignedUrl_sends [OF c assms(3) m2, where t' = t2' and outcome = o2 and ct = ct]
  obtain res2 s2 req2 where second: "getPresignedUrl t2 t2' o2 p ''GET'' ct ?s1 = (res2, s2, [req2])"
    by auto
  show "let (res1, s1, reqs1) = getPresignedUrl t1 t1' o1 p ''GET'' ct s;
            (res2, s2, reqs2) = getPresignedUrl t2 t2' o2 p ''GET'' ct s1
        in length (reqs1 @ reqs2) = 2"
    by (simp add: first second)
next
  let ?s1 = "if auth_rejected q1 then clearCredentials s else s"
  have miss: "\<not> (''PUT'' = ''GET'' \<and> cache_hit t st p)" for t st by simp
  from getPresignedUrl_sends [OF assms(1,2,3) miss, where t = t1 and t' = t1' and outcome = q1 and ct = ct]
  obtain res1 req1 where first: "getPresignedUrl t1 t1' q1 p ''PUT'' ct s = (res1, ?s1, [req1])"
    by auto
  have "\<exists>res2 s2 reqs2. getPresignedUrl t2 t2' q2 p ''PUT'' ct ?s1 = (res2, s2, reqs2) \<and>
      length reqs2 = (if auth_rejected q1 then 0 else 1)"
  proof (cases "auth_rejected q1")
    case True
    then show ?thesis
      using getPresignedUrl_signed_out
        [OF clearCredentials_signed_out [of s] assms(3) miss, where t = t2 and t' = t2' and outcome = q2 and ct = ct]
      by auto
  next
    case False
    then show ?thesis
      using getPresignedUrl_sends [OF assms(1,2,3) miss, where t = t2 and t' = t2' and outcome = q2 and ct = ct] by auto
  qed
  then obtain res2 s2 reqs2 where
    second: "getPresignedUrl t2 t2' q2 p ''PUT'' ct ?s1 = (res2, s2, reqs2)"
      "length reqs2 = (if auth_rejected q1 then 0 else 1)"
    by blast
  show "let (res1, s1, reqs1) = getPresignedUrl t1 t1' q1 p ''PUT'' ct s;
         (res2, s2, reqs2) = getPresignedUrl t2 t2' q2 p ''PUT'' ct s1
     in length reqs1 = 1 \<and> length reqs2 = (if auth_rejected q1 then 0 else 1) \<and>
        s1 = (if auth_rejected q1 then clearCredentials s else s)"
    using second by (simp add: first)
next
  assume h: "operation \<noteq> ''GET''"
  then have miss: "\<not> (operation = ''GET'' \<and> cache_hit t1 s p)" by simp
  from getPresignedUrl_sends [OF assms(1,2,3) miss, where t' = t1' and outcome = q1 and ct = ct] h
  obtain res req where first: "getPresignedUrl t1 t1' q1 p operation ct s =
      (res, if auth_rejected q1 then clearCredentials s else s, [req])"
    by auto
  show "let (res, s', reqs) = getPresignedUrl t1 t1' q1 p operation ct s
        in s' = (if auth_rejected q1 then clearCredentials s else s) \<and>
           set (cache_urls s') \<subseteq> set (cache_urls s)"
    by (simp add: first clearCredentials_def)
qed

theorem getPresignedUrl_get_cached_put_fresh_witness:
  "configured signed_in \<and> authenticated signed_in \<and>
   ''file.txt'' \<notin> set Object_prototype_names \<and>
   \<not> served_from_cache 1000 signed_in ''file.txt'' \<and>
   (800000 :: int) < 1200 + 900 * 1000 - 60 * 1000 \<and>
   getPresignedUrl 1000 1200 (signed ''https://bucket/file.txt?sig=abc'' 900) ''file.txt''
      ''GET'' ''application/octet-stream'' signed_in =
     (Inr (JString ''https://bucket/file.txt?sig=abc''), warm_cache,
      [the_request ''/presign'' (PresignBody ''GET'' ''file.txt'' None) signed_in]) \<and>
   getPresignedUrl 800000 800100 (signed ''https://bucket/file.txt?sig=def'' 900) ''file.txt''
      ''GET'' ''application/octet-stream'' warm_cache =
     (Inr (JString ''https://bucket/file.txt?sig=abc''), warm_cache, []) \<and>
   getPresignedUrl 1000 1200 (signed ''https://bucket/file.txt?sig=abc'' 900) ''file.txt''
      ''PUT'' ''application/octet-stream'' signed_in =
     (Inr (JString ''https://bucket/file.txt?sig=abc''), signed_in,
      [the_request ''/presign''
         (PresignBody ''PUT'' ''file.txt'' (Some ''application/octet-stream'')) signed_in]) \<and>
   getPresignedUrl 2000 2200 (signed ''https://bucket/file.txt?sig=def'' 900) ''file.txt''
      ''PUT'' ''application/octet-stream'' signed_in =
     (Inr (JString ''https://bucket/file.txt?sig=def''), signed_in,
      [the_request ''/presign''
         (PresignBody ''PUT'' ''file.txt'' (Some ''application/octet-stream'')) signed_in]) \<and>
   getPresignedUrl 1000 1200 (signed ''https://bucket/file.txt?sig=abc'' 900) ''file.txt''
      ''DELETE'' ''application/octet-stream'' signed_in =
     (Inr (JString ''https://bucket/file.txt?sig=abc''), signed_in,
      [the_request ''/presign'' (PresignBody ''DELETE'' ''file.txt'' None) signed_in])"
  using
    getPresignedUrl_get_cached_put_fresh
      [where s = signed_in and p = "''file.txt''" and ?t1.0 = 1000 and t1' = 1200
         and ?o1.0 = "signed ''https://bucket/file.txt?sig=abc'' 900"
         and resp = "\<lparr>pr_url = ''https://bucket/file.txt?sig=abc'', pr_expiresIn = 900\<rparr>"
         and ?t2.0 = 800000 and t2' = 800100
         and ?o2.0 = "signed ''https://bucket/file.txt?sig=def'' 900"
         and ?q1.0 = "signed ''https://bucket/file.txt?sig=abc'' 900"
         and ?q2.0 = "signed ''https://bucket/file.txt?sig=def'' 900"
         and operation = "''DELETE''" and ct = "''application/octet-stream''"]
  by (simp add: signed_in_def warm_cache_def signed_def configured_def authenticated_def
      truthy_string_def served_from_cache_def holds_url_def
      isCacheValid_def REFRESH_BUFFER_MS_def js_get_def Object_prototype_names_def
      succeeded_with_def response_ok_def updateCache_def the_request_def auth_rejected_def
      getPresignedUrl_def proxyRequest_def)

text \<open>
  For a path that names a member of \<open>Object.prototype\<close> the cache test reads the
  inherited member: with a valid cache, a GET for \<open>constructor\<close>, which was never cached,
  sends no request and returns a value that is not a URL.
\<close>

lemma getPresignedUrl_inherited_member:
  "getPresignedUrl 1000 1200 (signed ''https://bucket/constructor?sig=1'' 900) ''constructor''
      ''GET'' ''application/octet-stream'' warm_cache =
     (Inr (JInherited ''constructor''), warm_cache, [])"
  by (simp add: warm_cache_def getPresignedUrl_def isCacheValid_def REFRESH_BUFFER_MS_def
      js_get_def Object_prototype_names_def)




end
